theory Spec2Isabelle
  imports Complex_Main "HOL-Library.Sublist"
begin

section \<open>Data model of the workspace client\<close>

text \<open>
  Python strings are modelled as \<open>string\<close>; one \<open>char\<close> stands for one character of
  the Python string, so \<open>length\<close> is Python's \<open>len\<close>. Characters are the code points
  below 256.
\<close>

text \<open>
  A conversation object as the backend returns it (a loosely typed dictionary in the
  source). A flag that the source reads with \<open>conv.get(k)\<close> is \<open>None\<close> when the key is
  absent; \<open>conv["id"]\<close> is required.
\<close>

record raw_conv =
  rc_id :: string
  rc_is_im :: "bool option"
  rc_is_mpim :: "bool option"
  rc_is_private :: "bool option"
  rc_user :: "string option"
  rc_name :: "string option"
  rc_is_member :: "bool option"
  rc_is_archived :: "bool option"
  rc_unread_count :: "int option"
  rc_last_read :: "string option"

text \<open>Python truthiness of \<open>d.get(k)\<close> for a boolean entry: absent and False are falsy.\<close>

definition truthy :: "bool option \<Rightarrow> bool" where
  "truthy v = (v = Some True)"

text \<open>\<open>SlackClient._get_conversation_type\<close>\<close>

definition get_conversation_type :: "raw_conv \<Rightarrow> string" where
  "get_conversation_type conv =
     (if truthy (rc_is_im conv) then ''dm''
      else if truthy (rc_is_mpim conv) then ''mpim''
      else if truthy (rc_is_private conv) then ''group''
      else ''channel'')"

text \<open>The dataclass \<open>Message\<close>. The field \<open>timestamp\<close> is the instant in seconds.\<close>

record message =
  m_ts :: string
  m_text :: string
  m_user_id :: "string option"
  m_user_name :: "string option"
  m_channel_id :: string
  m_channel_name :: string
  m_thread_ts :: "string option"
  m_reply_count :: int
  m_is_mention :: bool
  m_timestamp :: "rat option"

text \<open>A message that carries only a text, for the examples.\<close>

definition text_message :: "string \<Rightarrow> message" where
  "text_message t = \<lparr>m_ts = ''1700000000.000100'', m_text = t, m_user_id = None, m_user_name = None,
     m_channel_id = [], m_channel_name = [], m_thread_ts = None, m_reply_count = 0,
     m_is_mention = False, m_timestamp = None\<rparr>"

section \<open>Python string primitives\<close>

text \<open>\<open>str.isspace\<close>, which is also what \<open>\s\<close> and \<open>str.split()\<close> use, below code point 256.\<close>

definition py_isspace :: "char \<Rightarrow> bool" where
  "py_isspace c = (let n = (of_char c :: nat) in
     (9 \<le> n \<and> n \<le> 13) \<or> (28 \<le> n \<and> n \<le> 32) \<or> n = 133 \<or> n = 160)"

text \<open>The characters \<open>\w\<close> matches in a \<open>str\<close> pattern (alphanumeric or underscore), below
  code point 256.\<close>

definition py_isword :: "char \<Rightarrow> bool" where
  "py_isword c = (let n = (of_char c :: nat) in
     (48 \<le> n \<and> n \<le> 57) \<or> (65 \<le> n \<and> n \<le> 90) \<or> n = 95 \<or> (97 \<le> n \<and> n \<le> 122)
     \<or> n = 170 \<or> n = 178 \<or> n = 179 \<or> n = 181 \<or> n = 185 \<or> n = 186
     \<or> (188 \<le> n \<and> n \<le> 190) \<or> (192 \<le> n \<and> n \<le> 214) \<or> (216 \<le> n \<and> n \<le> 246)
     \<or> (248 \<le> n \<and> n \<le> 255))"

text \<open>\<open>str.lower\<close> on one character below code point 256.\<close>

definition lower_char :: "char \<Rightarrow> char" where
  "lower_char c = (let n = (of_char c :: nat) in
     if (65 \<le> n \<and> n \<le> 90) \<or> (192 \<le> n \<and> n \<le> 222 \<and> n \<noteq> 215)
     then char_of (n + 32) else c)"

definition py_lower :: "string \<Rightarrow> string" where
  "py_lower s = map lower_char s"

definition newline :: char where
  "newline = CHR 0x0A"

text \<open>\<open>str.split()\<close> with no argument: the maximal runs of non-whitespace characters.
  The second argument is the word read so far.\<close>

fun split_acc :: "string \<Rightarrow> string \<Rightarrow> string list" where
  "split_acc [] w = (if w = [] then [] else [w])"
| "split_acc (c # cs) w =
     (if py_isspace c then (if w = [] then split_acc cs [] else w # split_acc cs [])
      else split_acc cs (w @ [c]))"

definition py_split :: "string \<Rightarrow> string list" where
  "py_split s = split_acc s []"

text \<open>\<open>sep.join(parts)\<close>\<close>

fun py_join :: "string \<Rightarrow> string list \<Rightarrow> string" where
  "py_join sep [] = []"
| "py_join sep [x] = x"
| "py_join sep (x # y # ys) = x @ sep @ py_join sep (y # ys)"

text \<open>The slice \<open>s[:k]\<close>: a negative \<open>k\<close> counts from the end.\<close>

definition py_slice_to :: "'a list \<Rightarrow> int \<Rightarrow> 'a list" where
  "py_slice_to s k = (if 0 \<le> k then take (nat k) s else take (length s - nat (- k)) s)"

text \<open>\<open>needle in haystack\<close> for strings: a left-to-right scan.\<close>

fun py_in :: "string \<Rightarrow> string \<Rightarrow> bool" where
  "py_in w [] = (w = [])"
| "py_in w (c # cs) = (prefix w (c # cs) \<or> py_in w cs)"

section \<open>Regular expressions of the \<open>re\<close> module\<close>

text \<open>
  The patterns of the source use literals, the classes \<open>\w\<close>, \<open>\s\<close> and negated sets, \<open>+\<close> on
  a class, \<open>?\<close>, alternation, groups and the anchors \<open>^\<close> and \<open>$\<close>. The matcher below is
  the backtracking matcher of \<open>re\<close> for that fragment: it lists every way the pattern can
  match at the head of the input, in the order \<open>re\<close> tries them (greedy, leftmost
  alternative first), each with its captured groups and the input left over.
\<close>

datatype cls = Word | Space | NotIn string

fun in_cls :: "cls \<Rightarrow> char \<Rightarrow> bool" where
  "in_cls Word c = py_isword c"
| "in_cls Space c = py_isspace c"
| "in_cls (NotIn cs) c = (c \<notin> set cs)"

datatype rx = Lit string | One cls | Plus cls | Opt rx | Alt rx rx | Seq rx rx | Grp rx | Bol | Eol

fun rx_match :: "rx \<Rightarrow> bool \<Rightarrow> string \<Rightarrow> (string list \<times> string) list" where
  "rx_match (Lit w) bos s = (if prefix w s then [([], drop (length w) s)] else [])"
| "rx_match (One k) bos s =
     (case s of [] \<Rightarrow> [] | c # cs \<Rightarrow> if in_cls k c then [([], cs)] else [])"
| "rx_match (Plus k) bos s =
     map (\<lambda>n. ([], drop n s)) (rev [1 ..< Suc (length (takeWhile (in_cls k) s))])"
| "rx_match (Opt a) bos s = rx_match a bos s @ [([], s)]"
| "rx_match (Alt a b) bos s = rx_match a bos s @ rx_match b bos s"
| "rx_match (Seq a b) bos s =
     concat (map (\<lambda>(c1, r1).
        map (\<lambda>(c2, r2). (c1 @ c2, r2)) (rx_match b (bos \<and> length r1 = length s) r1))
       (rx_match a bos s))"
| "rx_match (Grp a) bos s =
     map (\<lambda>(c, r). (take (length s - length r) s # c, r)) (rx_match a bos s)"
| "rx_match Bol bos s = (if bos then [([], s)] else [])"
| "rx_match Eol bos s = (if s = [] \<or> s = [newline] then [([], s)] else [])"

definition seqs :: "rx list \<Rightarrow> rx" where
  "seqs rs = foldr Seq (butlast rs) (last rs)"

definition alts :: "rx list \<Rightarrow> rx" where
  "alts rs = foldr Alt (butlast rs) (last rs)"

text \<open>\<open>re.search(p, s)\<close> as a truth value: is there a match at some position.\<close>

fun search_from :: "rx \<Rightarrow> bool \<Rightarrow> string \<Rightarrow> bool" where
  "search_from p bos [] = (rx_match p bos [] \<noteq> [])"
| "search_from p bos (c # cs) = (rx_match p bos (c # cs) \<noteq> [] \<or> search_from p False cs)"

definition re_search :: "rx \<Rightarrow> string \<Rightarrow> bool" where
  "re_search p s = search_from p True s"

text \<open>A replacement template: literal text and group references \<open>\1\<close>, \<open>\2\<close>.\<close>

datatype ritem = RLit string | RGrp nat

fun expand :: "ritem list \<Rightarrow> string list \<Rightarrow> string" where
  "expand [] caps = []"
| "expand (RLit w # is) caps = w @ expand is caps"
| "expand (RGrp n # is) caps = (if 0 < n \<and> n \<le> length caps then caps ! (n - 1) else []) @ expand is caps"

text \<open>
  \<open>re.sub(p, repl, s)\<close>: scan from the left; where the pattern matches, emit the
  replacement of the preferred match and go on after it; elsewhere copy one character.
  A match that consumes nothing emits the replacement and copies one character.
\<close>

function sub_from :: "rx \<Rightarrow> ritem list \<Rightarrow> bool \<Rightarrow> string \<Rightarrow> string" where
  "sub_from p repl bos s =
     (case rx_match p bos s of
        [] \<Rightarrow> (case s of [] \<Rightarrow> [] | c # cs \<Rightarrow> c # sub_from p repl False cs)
      | (caps, rest) # _ \<Rightarrow>
          if length rest < length s then expand repl caps @ sub_from p repl False rest
          else (case s of [] \<Rightarrow> expand repl caps
                | c # cs \<Rightarrow> expand repl caps @ c # sub_from p repl False cs))"
  by pat_completeness auto
termination
  by (relation "measure (\<lambda>(p, repl, bos, s). length s)") auto

definition re_sub :: "rx \<Rightarrow> ritem list \<Rightarrow> string \<Rightarrow> string" where
  "re_sub p repl s = sub_from p repl True s"

section \<open>Text utilities of the summarizer\<close>

text \<open>The four markup patterns of \<open>truncate_text\<close>:
  \<^verbatim>\<open><@\w+>\<close>, \<^verbatim>\<open><#\w+\|([^>]+)>\<close>, \<^verbatim>\<open><([^|>]+)\|([^>]+)>\<close> and \<^verbatim>\<open><([^>]+)>\<close>.\<close>

definition pat_user_mention :: rx where
  "pat_user_mention = seqs [Lit ''<@'', Plus Word, Lit ''>'']"

definition pat_channel_mention :: rx where
  "pat_channel_mention = seqs [Lit ''<#'', Plus Word, Lit ''|'', Grp (Plus (NotIn ''>'')), Lit ''>'']"

definition pat_link_text :: rx where
  "pat_link_text = seqs [Lit ''<'', Grp (Plus (NotIn ''|>'')), Lit ''|'', Grp (Plus (NotIn ''>'')), Lit ''>'']"

definition pat_link :: rx where
  "pat_link = seqs [Lit ''<'', Grp (Plus (NotIn ''>'')), Lit ''>'']"

text \<open>The rewriting of the inline markup, the first four statements of \<open>truncate_text\<close>.\<close>

definition rewrite_markup :: "string \<Rightarrow> string" where
  "rewrite_markup text =
     re_sub pat_link [RGrp 1]
       (re_sub pat_link_text [RGrp 2]
         (re_sub pat_channel_mention [RLit ''#'', RGrp 1]
           (re_sub pat_user_mention [RLit ''@user''] text)))"

text \<open>\<open>" ".join(text.split())\<close>\<close>

definition collapse_ws :: "string \<Rightarrow> string" where
  "collapse_ws text = py_join '' '' (py_split text)"

text \<open>\<open>truncate_text(text, max_len)\<close>\<close>

definition truncate_text :: "string \<Rightarrow> int \<Rightarrow> string" where
  "truncate_text text max_len =
     (let t = collapse_ws (rewrite_markup text) in
      if int (length t) \<le> max_len then t
      else py_slice_to t (max_len - 3) @ ''...'')"

section \<open>Action-item classification\<close>

text \<open>The list \<open>question_patterns\<close> of \<open>is_action_item\<close>, in the order of the source:
  \<^verbatim>\<open>\?$\<close>,
  \<^verbatim>\<open>^(can|could|would|will|do|does|did|is|are|have|has|should)\s\<close>,
  \<^verbatim>\<open>(please|pls)\s\<close>,
  \<^verbatim>\<open>(need|needs)\s+(you|your)\<close>,
  \<^verbatim>\<open>(review|check|look at|take a look)\<close>,
  \<^verbatim>\<open>(thoughts|opinion|input|feedback)\?\<close>,
  \<^verbatim>\<open>when (can|will|could)\<close>,
  \<^verbatim>\<open>eta\??\<close>.\<close>

definition modal_verbs :: "string list" where
  "modal_verbs = [''can'', ''could'', ''would'', ''will'', ''do'', ''does'', ''did'', ''is'',
     ''are'', ''have'', ''has'', ''should'']"

definition question_patterns :: "rx list" where
  "question_patterns =
     [Seq (Lit ''?'') Eol,
      seqs [Bol, Grp (alts (map Lit modal_verbs)), One Space],
      Seq (Grp (alts (map Lit [''please'', ''pls'']))) (One Space),
      seqs [Grp (alts (map Lit [''need'', ''needs''])), Plus Space,
            Grp (alts (map Lit [''you'', ''your'']))],
      Grp (alts (map Lit [''review'', ''check'', ''look at'', ''take a look''])),
      Seq (Grp (alts (map Lit [''thoughts'', ''opinion'', ''input'', ''feedback'']))) (Lit ''?''),
      Seq (Lit ''when '') (Grp (alts (map Lit [''can'', ''will'', ''could'']))),
      Seq (Lit ''eta'') (Opt (Lit ''?''))]"

text \<open>The mention token: the user id between \<open><@\<close> and \<open>>\<close>.\<close>

definition mention_token :: "string \<Rightarrow> string" where
  "mention_token my_user_id = ''<@'' @ my_user_id @ ''>''"

text \<open>\<open>is_action_item(message, my_user_id)\<close>: the loop over the patterns returns at the
  first one that matches.\<close>

definition is_action_item :: "message \<Rightarrow> string \<Rightarrow> bool" where
  "is_action_item msg my_user_id =
     (let text = py_lower (m_text msg) in
      if \<not> py_in (mention_token my_user_id) (m_text msg) then False
      else list_ex (\<lambda>pattern. re_search pattern text) question_patterns)"

text \<open>
  The heuristic as the specification words it, on the lowercased text: ends with a
  question mark; begins with a modal verb followed by whitespace; contains please or pls
  followed by whitespace; contains need or needs, whitespace, and you or your; contains
  review, check, look at or take a look; contains thoughts?, opinion?, input? or
  feedback?; contains when can, when will or when could; contains eta.
\<close>

definition heuristic_as_specified :: "string \<Rightarrow> bool" where
  "heuristic_as_specified t =
     (suffix ''?'' t
      \<or> (\<exists>v\<in>set modal_verbs. \<exists>c. py_isspace c \<and> prefix (v @ [c]) t)
      \<or> (\<exists>v\<in>set [''please'', ''pls'']. \<exists>c. py_isspace c \<and> sublist (v @ [c]) t)
      \<or> (\<exists>v\<in>set [''need'', ''needs'']. \<exists>y\<in>set [''you'', ''your''].
            \<exists>ws. ws \<noteq> [] \<and> (\<forall>c\<in>set ws. py_isspace c) \<and> sublist (v @ ws @ y) t)
      \<or> (\<exists>v\<in>set [''review'', ''check'', ''look at'', ''take a look'']. sublist v t)
      \<or> (\<exists>v\<in>set [''thoughts'', ''opinion'', ''input'', ''feedback'']. sublist (v @ ''?'') t)
      \<or> (\<exists>v\<in>set [''can'', ''will'', ''could'']. sublist (''when '' @ v) t)
      \<or> sublist ''eta'' t)"

text \<open>The classification as the specification words it: a self-mention and the heuristic.\<close>

definition action_item_as_specified :: "message \<Rightarrow> string \<Rightarrow> bool" where
  "action_item_as_specified msg my_user_id =
     (sublist (mention_token my_user_id) (m_text msg)
      \<and> heuristic_as_specified (py_lower (m_text msg)))"

section \<open>The workspace client\<close>

text \<open>Exceptions of the source, as values.\<close>

datatype exn = SlackApiError string | ValueError string | TypeError string | KeyError string
  | StopIteration

text \<open>The dataclasses \<open>User\<close> and \<open>Conversation\<close>.\<close>

record user =
  u_id :: string
  u_name :: string
  u_real_name :: string
  u_is_bot :: bool

record conversation =
  c_id :: string
  c_name :: string
  c_type :: string
  c_is_member :: bool
  c_is_archived :: bool
  c_unread_count :: int
  c_last_read :: "string option"
  c_latest_message :: "message option"

text \<open>Payloads of the backend: a user profile, a message, a page of conversations.\<close>

record raw_user =
  ru_name :: "string option"
  ru_real_name :: "string option"
  ru_is_bot :: "bool option"

record raw_msg =
  rm_subtype :: "string option"
  rm_user :: "string option"
  rm_text :: "string option"
  rm_ts :: "string option"
  rm_thread_ts :: "string option"
  rm_reply_count :: "int option"

record page =
  pg_channels :: "raw_conv list"
  pg_next_cursor :: "string option"

text \<open>A time bound of a history request: a number (from \<open>get_messages\<close>) or a message id.\<close>

datatype tsarg = TsNum rat | TsStr string

record hist_args =
  ha_channel :: string
  ha_limit :: int
  ha_oldest :: "tsarg option"
  ha_latest :: "tsarg option"
  ha_inclusive :: bool

text \<open>The requests the client sends, kept in a log in the order they are made.\<close>

datatype api_call =
    AuthTest
  | UsersInfo string
  | ConversationsList string "string option"
  | ConversationsHistory hist_args
  | ConversationsReplies string string int
  | ChatPostMessage string string "string option"

text \<open>
  The environment of a client: the Slack Web API and Python's \<open>float()\<close>. Every API
  function gets the log of the requests made so far, so its answer may change from one
  request to the next; \<open>Inl code\<close> stands for a \<open>SlackApiError\<close> whose response carries
  that error code. \<open>py_float\<close> is \<open>None\<close> where \<open>float()\<close> raises \<open>ValueError\<close>.
\<close>

record env =
  auth_test :: "api_call list \<Rightarrow> string + string"
  users_info :: "api_call list \<Rightarrow> string \<Rightarrow> string + raw_user"
  conversations_list :: "api_call list \<Rightarrow> string \<Rightarrow> string option \<Rightarrow> string + page"
  conversations_history :: "api_call list \<Rightarrow> hist_args \<Rightarrow> string + raw_msg list"
  conversations_replies :: "api_call list \<Rightarrow> string \<Rightarrow> string \<Rightarrow> int \<Rightarrow> string + raw_msg list"
  chat_postMessage :: "api_call list \<Rightarrow> string \<Rightarrow> string \<Rightarrow> string option \<Rightarrow> string + string"
  py_float :: "string \<Rightarrow> rat option"

text \<open>The mutable fields of \<open>SlackClient\<close>, and the request log.\<close>

record client =
  user_cache :: "string \<rightharpoonup> user"
  my_user_id_cache :: "string option"
  conversations_cache :: "conversation list option"
  conversations_cache_time :: rat
  api_log :: "api_call list"

definition logged :: "api_call \<Rightarrow> client \<Rightarrow> client" where
  "logged c s = s\<lparr>api_log := api_log s @ [c]\<rparr>"

text \<open>The property \<open>SlackClient.my_user_id\<close>\<close>

definition my_user_id :: "env \<Rightarrow> client \<Rightarrow> (exn + string) \<times> client" where
  "my_user_id e s =
     (case my_user_id_cache s of
        Some uid \<Rightarrow> (Inr uid, s)
      | None \<Rightarrow>
          (case auth_test e (api_log s) of
             Inl code \<Rightarrow> (Inl (SlackApiError code), logged AuthTest s)
           | Inr uid \<Rightarrow> (Inr uid, (logged AuthTest s)\<lparr>my_user_id_cache := Some uid\<rparr>)))"

text \<open>\<open>d.get(key, default)\<close>\<close>

definition get_or :: "'a option \<Rightarrow> 'a \<Rightarrow> 'a" where
  "get_or v d = (case v of None \<Rightarrow> d | Some x \<Rightarrow> x)"

text \<open>\<open>SlackClient.get_user\<close>\<close>

definition get_user :: "env \<Rightarrow> string \<Rightarrow> client \<Rightarrow> user \<times> client" where
  "get_user e user_id s =
     (case user_cache s user_id of
        Some u \<Rightarrow> (u, s)
      | None \<Rightarrow>
          (let u = (case users_info e (api_log s) user_id of
                      Inr d \<Rightarrow> \<lparr>u_id = user_id, u_name = get_or (ru_name d) ''unknown'',
                                u_real_name = get_or (ru_real_name d) (get_or (ru_name d) ''Unknown''),
                                u_is_bot = get_or (ru_is_bot d) False\<rparr>
                    | Inl code \<Rightarrow> \<lparr>u_id = user_id, u_name = ''unknown'',
                                u_real_name = ''Unknown User'', u_is_bot = False\<rparr>)
           in (u, (logged (UsersInfo user_id) s)\<lparr>user_cache := (user_cache s)(user_id \<mapsto> u)\<rparr>)))"

text \<open>\<open>s.replace(old, new)\<close> for a non-empty \<open>old\<close>; the last argument counts the characters
  of a match still to be skipped.\<close>

fun replace_from :: "string \<Rightarrow> string \<Rightarrow> string \<Rightarrow> nat \<Rightarrow> string" where
  "replace_from old new [] k = []"
| "replace_from old new (c # cs) (Suc k) = replace_from old new cs k"
| "replace_from old new (c # cs) 0 =
     (if prefix old (c # cs) then new @ replace_from old new cs (length old - 1)
      else c # replace_from old new cs 0)"

definition py_replace :: "string \<Rightarrow> string \<Rightarrow> string \<Rightarrow> string" where
  "py_replace old new s = replace_from old new s 0"

text \<open>\<open>s.split(sep)\<close> for a one-character separator; the last argument is the piece read
  so far.\<close>

fun split_on_acc :: "char \<Rightarrow> string \<Rightarrow> string \<Rightarrow> string list" where
  "split_on_acc sep [] w = [w]"
| "split_on_acc sep (c # cs) w =
     (if c = sep then w # split_on_acc sep cs [] else split_on_acc sep cs (w @ [c]))"

definition py_split_on :: "char \<Rightarrow> string \<Rightarrow> string list" where
  "py_split_on sep s = split_on_acc sep s []"

text \<open>\<open>SlackClient._get_conversation_name\<close>\<close>

definition get_conversation_name ::
  "env \<Rightarrow> raw_conv \<Rightarrow> string \<Rightarrow> bool \<Rightarrow> client \<Rightarrow> string \<times> client" where
  "get_conversation_name e conv conv_type resolve_users s =
     (if conv_type = ''dm'' then
        (case rc_user conv of
           None \<Rightarrow> (''@Unknown'', s)
         | Some user_id \<Rightarrow>
             if user_id = [] then (''@Unknown'', s)
             else if resolve_users then
               (let (u, s') = get_user e user_id s in (''@'' @ u_real_name u, s'))
             else (''@user:'' @ user_id, s))
      else if conv_type = ''mpim'' then
        (py_replace ''--'' '', '' (py_replace ''mpdm-'' [] (get_or (rc_name conv) ''Group DM'')), s)
      else (''#'' @ get_or (rc_name conv) ''unknown'', s))"

text \<open>\<open>SlackClient.resolve_dm_name\<close>\<close>

definition resolve_dm_name :: "env \<Rightarrow> conversation \<Rightarrow> client \<Rightarrow> string \<times> client" where
  "resolve_dm_name e conv s =
     (if prefix ''@user:'' (c_name conv) then
        (let (u, s') = get_user e (drop 6 (c_name conv)) s in (''@'' @ u_real_name u, s'))
      else (c_name conv, s))"

text \<open>The default of the parameter \<open>types\<close>, and the table \<open>type_map\<close> with its lookup
  \<open>type_map.get(t, t)\<close>.\<close>

definition all_types :: string where
  "all_types = ''public_channel,private_channel,mpim,im''"

definition type_map :: "string \<Rightarrow> string" where
  "type_map t =
     (if t = ''public_channel'' then ''channel''
      else if t = ''private_channel'' then ''group''
      else if t = ''mpim'' then ''mpim''
      else if t = ''im'' then ''dm''
      else t)"

text \<open>The body of the \<open>for conv in response["channels"]\<close> loop of \<open>get_conversations\<close>.\<close>

fun build_conversations :: "env \<Rightarrow> raw_conv list \<Rightarrow> client \<Rightarrow> conversation list \<times> client" where
  "build_conversations e [] s = ([], s)"
| "build_conversations e (conv # convs) s =
     (let conv_type = get_conversation_type conv;
          (name, s1) = get_conversation_name e conv conv_type False s;
          c = \<lparr>c_id = rc_id conv, c_name = name, c_type = conv_type,
               c_is_member = get_or (rc_is_member conv) True,
               c_is_archived = get_or (rc_is_archived conv) False,
               c_unread_count = get_or (rc_unread_count conv) 0,
               c_last_read = rc_last_read conv, c_latest_message = None\<rparr>;
          (cs, s2) = build_conversations e convs s1
      in (c # cs, s2))"

text \<open>
  The \<open>while True\<close> loop of \<open>get_conversations\<close>: one request per page, until the backend
  gives no further cursor. The first argument bounds the number of pages; \<open>None\<close> is a
  loop that has not ended within the bound.
\<close>

fun fetch_pages ::
  "nat \<Rightarrow> env \<Rightarrow> string \<Rightarrow> string option \<Rightarrow> conversation list \<Rightarrow> client
   \<Rightarrow> (exn + conversation list) option \<times> client" where
  "fetch_pages 0 e types cursor acc s = (None, s)"
| "fetch_pages (Suc n) e types cursor acc s =
     (let s1 = logged (ConversationsList types cursor) s in
      case conversations_list e (api_log s) types cursor of
        Inl code \<Rightarrow> (Some (Inl (SlackApiError code)), s1)
      | Inr response \<Rightarrow>
          (let (cs, s2) = build_conversations e (pg_channels response) s1;
               acc' = acc @ cs
           in case pg_next_cursor response of
                None \<Rightarrow> (Some (Inr acc'), s2)
              | Some c \<Rightarrow> if c = [] then (Some (Inr acc'), s2)
                          else fetch_pages n e types (Some c) acc' s2))"

text \<open>
  \<open>SlackClient.get_conversations\<close>. The two readings of \<open>time.time()\<close> are arguments:
  \<open>now\<close> at the freshness test and \<open>later\<close> when the cache is stored.
\<close>

definition cache_ttl :: rat where
  "cache_ttl = 300"

text \<open>The condition under which \<open>get_conversations\<close> answers from its cache.\<close>

definition cache_fresh :: "bool \<Rightarrow> rat \<Rightarrow> client \<Rightarrow> bool" where
  "cache_fresh use_cache now s =
     (use_cache \<and> conversations_cache s \<noteq> None \<and> conversations_cache s \<noteq> Some []
      \<and> now - conversations_cache_time s < cache_ttl)"

text \<open>The kinds a \<open>types\<close> string allows, as the cached branch computes them.\<close>

definition allowed_kinds :: "string \<Rightarrow> string set" where
  "allowed_kinds types = set (map type_map (py_split_on CHR '','' types))"

definition get_conversations ::
  "nat \<Rightarrow> env \<Rightarrow> rat \<Rightarrow> rat \<Rightarrow> string \<Rightarrow> bool \<Rightarrow> client
   \<Rightarrow> (exn + conversation list) option \<times> client" where
  "get_conversations fuel e now later types use_cache s =
     (if cache_fresh use_cache now s
      then (Some (Inr (filter (\<lambda>c. c_type c \<in> allowed_kinds types) (the (conversations_cache s)))), s)
      else
        (case fetch_pages fuel e types None [] s of
           (Some (Inr conversations), s1) \<Rightarrow>
             if types = all_types
             then (Some (Inr conversations),
                   s1\<lparr>conversations_cache := Some conversations,
                      conversations_cache_time := later\<rparr>)
             else (Some (Inr conversations), s1)
         | r \<Rightarrow> r))"

text \<open>The \<open>for conv in ...: if ...: return conv.id\<close> loops of \<open>_resolve_channel\<close>.\<close>

definition first_id :: "(conversation \<Rightarrow> bool) \<Rightarrow> conversation list \<Rightarrow> string option" where
  "first_id P convs = map_option c_id (find P convs)"

text \<open>\<open>s.lstrip(chars)\<close>\<close>

definition py_lstrip :: "string \<Rightarrow> string \<Rightarrow> string" where
  "py_lstrip chars s = dropWhile (\<lambda>c. c \<in> set chars) s"

text \<open>\<open>SlackClient._resolve_channel\<close>\<close>

definition resolve_channel ::
  "nat \<Rightarrow> env \<Rightarrow> rat \<Rightarrow> rat \<Rightarrow> string \<Rightarrow> client \<Rightarrow> (exn + string) option \<times> client" where
  "resolve_channel fuel e now later channel s =
     (if prefix ''C'' channel \<or> prefix ''D'' channel \<or> prefix ''G'' channel
      then (Some (Inr channel), s)
      else
        (let channel = (if prefix ''#'' channel then drop 1 channel else channel) in
         if prefix ''@'' channel then
           (let username = drop 1 channel in
            case get_conversations fuel e now later ''im'' True s of
              (Some (Inr convs), s1) \<Rightarrow>
                (case first_id (\<lambda>conv. py_in (py_lower username) (py_lower (c_name conv))) convs of
                   Some i \<Rightarrow> (Some (Inr i), s1)
                 | None \<Rightarrow>
                     (Some (Inl (ValueError (''Could not find DM with user: '' @ username))), s1))
            | (Some (Inl x), s1) \<Rightarrow> (Some (Inl x), s1)
            | (None, s1) \<Rightarrow> (None, s1))
         else
           (case get_conversations fuel e now later ''public_channel,private_channel'' True s of
              (Some (Inr convs), s1) \<Rightarrow>
                (case first_id (\<lambda>conv. py_lstrip ''#'' (c_name conv) = channel) convs of
                   Some i \<Rightarrow> (Some (Inr i), s1)
                 | None \<Rightarrow> (Some (Inl (ValueError (''Could not find channel: '' @ channel))), s1))
            | (Some (Inl x), s1) \<Rightarrow> (Some (Inl x), s1)
            | (None, s1) \<Rightarrow> (None, s1))))"

text \<open>\<open>s.strip()\<close>\<close>

definition py_strip :: "string \<Rightarrow> string" where
  "py_strip s = rev (dropWhile py_isspace (rev (dropWhile py_isspace s)))"

text \<open>The two loops of \<open>find_dm_by_person\<close>: the first conversation whose resolved name,
  lowercased and without leading \<open>@\<close>, passes the test.\<close>

fun find_resolved ::
  "(string \<Rightarrow> bool) \<Rightarrow> env \<Rightarrow> conversation list \<Rightarrow> client \<Rightarrow> (string \<times> string) option \<times> client" where
  "find_resolved P e [] s = (None, s)"
| "find_resolved P e (conv # convs) s =
     (let (resolved, s1) = resolve_dm_name e conv s in
      if P (py_lstrip ''@'' (py_lower resolved)) then (Some (c_id conv, resolved), s1)
      else find_resolved P e convs s1)"

text \<open>\<open>SlackClient.find_dm_by_person\<close>\<close>

definition find_dm_by_person ::
  "nat \<Rightarrow> env \<Rightarrow> rat \<Rightarrow> rat \<Rightarrow> string \<Rightarrow> client \<Rightarrow> (exn + string \<times> string) option \<times> client" where
  "find_dm_by_person fuel e now later person s =
     (let person_lower = py_lstrip ''@'' (py_strip (py_lower person)) in
      case get_conversations fuel e now later ''im'' True s of
        (Some (Inr dm_convs), s1) \<Rightarrow>
          (case find_resolved (\<lambda>name_lower. person_lower = name_lower) e dm_convs s1 of
             (Some r, s2) \<Rightarrow> (Some (Inr r), s2)
           | (None, s2) \<Rightarrow>
               (case find_resolved (\<lambda>name_lower. py_in person_lower name_lower) e dm_convs s2 of
                  (Some r, s3) \<Rightarrow> (Some (Inr r), s3)
                | (None, s3) \<Rightarrow> (Some (Inl (ValueError (''Could not find DM with: '' @ person))), s3)))
      | (Some (Inl x), s1) \<Rightarrow> (Some (Inl x), s1)
      | (None, s1) \<Rightarrow> (None, s1))"

text \<open>\<open>if x:\<close> for an optional string: absent and empty are falsy.\<close>

definition nonempty_opt :: "string option \<Rightarrow> bool" where
  "nonempty_opt v = (v \<noteq> None \<and> v \<noteq> Some [])"

text \<open>The name of the author, as both message loops compute it.\<close>

definition author_name :: "env \<Rightarrow> string option \<Rightarrow> client \<Rightarrow> string option \<times> client" where
  "author_name e user_id s =
     (if nonempty_opt user_id
      then (let (u, s') = get_user e (the user_id) s in (Some (u_real_name u), s'))
      else (None, s))"

text \<open>\<open>datetime.fromtimestamp(float(ts), tz=timezone.utc) if ts else None\<close>\<close>

definition parse_timestamp :: "env \<Rightarrow> string \<Rightarrow> exn + rat option" where
  "parse_timestamp e ts =
     (if ts = [] then Inr None
      else (case py_float e ts of
              None \<Rightarrow> Inl (ValueError (''could not convert string to float: '' @ ts))
            | Some t \<Rightarrow> Inr (Some t)))"

definition skipped_subtypes :: "string list" where
  "skipped_subtypes = [''channel_join'', ''channel_leave'', ''bot_message'']"

text \<open>The message loop of \<open>get_messages\<close>.\<close>

fun build_messages :: "env \<Rightarrow> string \<Rightarrow> raw_msg list \<Rightarrow> client \<Rightarrow> (exn + message list) \<times> client" where
  "build_messages e channel_id [] s = (Inr [], s)"
| "build_messages e channel_id (msg # msgs) s =
     (if rm_subtype msg \<in> Some ` set skipped_subtypes then build_messages e channel_id msgs s
      else
        (let (user_name, s1) = author_name e (rm_user msg) s in
         case my_user_id e s1 of
           (Inl x, s2) \<Rightarrow> (Inl x, s2)
         | (Inr me, s2) \<Rightarrow>
             (let is_mention = py_in (mention_token me) (get_or (rm_text msg) []);
                  ts = get_or (rm_ts msg) []
              in case parse_timestamp e ts of
                   Inl x \<Rightarrow> (Inl x, s2)
                 | Inr stamp \<Rightarrow>
                     (case build_messages e channel_id msgs s2 of
                        (Inl x, s3) \<Rightarrow> (Inl x, s3)
                      | (Inr rest, s3) \<Rightarrow>
                          (Inr (\<lparr>m_ts = ts, m_text = get_or (rm_text msg) [],
                                 m_user_id = rm_user msg, m_user_name = user_name,
                                 m_channel_id = channel_id, m_channel_name = [],
                                 m_thread_ts = rm_thread_ts msg,
                                 m_reply_count = get_or (rm_reply_count msg) 0,
                                 m_is_mention = is_mention, m_timestamp = stamp\<rparr> # rest), s3)))))"

text \<open>\<open>if oldest:\<close> for an optional number: absent and zero are falsy.\<close>

definition bound_arg :: "rat option \<Rightarrow> tsarg option" where
  "bound_arg v = (case v of None \<Rightarrow> None | Some x \<Rightarrow> if x = 0 then None else Some (TsNum x))"

text \<open>The dictionary \<open>kwargs\<close> of \<open>get_messages\<close>.\<close>

definition history_kwargs :: "string \<Rightarrow> int \<Rightarrow> rat option \<Rightarrow> rat option \<Rightarrow> hist_args" where
  "history_kwargs channel_id limit oldest latest =
     \<lparr>ha_channel = channel_id, ha_limit = limit, ha_oldest = bound_arg oldest,
      ha_latest = bound_arg latest, ha_inclusive = False\<rparr>"

text \<open>\<open>SlackClient.get_messages\<close>\<close>

definition get_messages ::
  "env \<Rightarrow> string \<Rightarrow> int \<Rightarrow> rat option \<Rightarrow> rat option \<Rightarrow> client \<Rightarrow> (exn + message list) \<times> client" where
  "get_messages e channel_id limit oldest latest s =
     (let kwargs = history_kwargs channel_id limit oldest latest;
          s1 = logged (ConversationsHistory kwargs) s
      in case conversations_history e (api_log s) kwargs of
           Inl code \<Rightarrow> if code = ''channel_not_found'' then (Inr [], s1)
                       else (Inl (SlackApiError code), s1)
         | Inr msgs \<Rightarrow> build_messages e channel_id msgs s1)"

text \<open>The message loop of \<open>get_thread\<close>.\<close>

fun build_thread :: "env \<Rightarrow> string \<Rightarrow> string \<Rightarrow> raw_msg list \<Rightarrow> client \<Rightarrow> (exn + message list) \<times> client" where
  "build_thread e channel_id thread_ts [] s = (Inr [], s)"
| "build_thread e channel_id thread_ts (msg # msgs) s =
     (let (user_name, s1) = author_name e (rm_user msg) s;
          ts = get_or (rm_ts msg) []
      in case parse_timestamp e ts of
           Inl x \<Rightarrow> (Inl x, s1)
         | Inr stamp \<Rightarrow>
             (case build_thread e channel_id thread_ts msgs s1 of
                (Inl x, s2) \<Rightarrow> (Inl x, s2)
              | (Inr rest, s2) \<Rightarrow>
                  (Inr (\<lparr>m_ts = ts, m_text = get_or (rm_text msg) [],
                         m_user_id = rm_user msg, m_user_name = user_name,
                         m_channel_id = channel_id, m_channel_name = [],
                         m_thread_ts = Some thread_ts, m_reply_count = 0,
                         m_is_mention = False, m_timestamp = stamp\<rparr> # rest), s2)))"

text \<open>\<open>SlackClient.get_thread\<close>\<close>

definition get_thread ::
  "env \<Rightarrow> string \<Rightarrow> string \<Rightarrow> int \<Rightarrow> client \<Rightarrow> (exn + message list) \<times> client" where
  "get_thread e channel_id thread_ts limit s =
     (let s1 = logged (ConversationsReplies channel_id thread_ts limit) s
      in case conversations_replies e (api_log s) channel_id thread_ts limit of
           Inl code \<Rightarrow> (Inr [], s1)
         | Inr msgs \<Rightarrow> build_thread e channel_id thread_ts msgs s1)"

text \<open>\<open>context.rsplit(' ', 1)[0]\<close>: the part before the last blank, or all of it when
  there is no blank.\<close>

definition rsplit_head :: "string \<Rightarrow> string" where
  "rsplit_head s =
     (if CHR '' '' \<in> set s then rev (tl (dropWhile (\<lambda>c. c \<noteq> CHR '' '') (rev s))) else s)"

text \<open>The excerpt of the quoted message in \<open>_maybe_add_reply_context\<close>.\<close>

definition reply_excerpt :: "string \<Rightarrow> string" where
  "reply_excerpt original_text =
     (let context = take 50 original_text;
          context = (if 50 < length original_text then rsplit_head context @ ''...'' else context)
      in py_strip (py_replace [newline] '' '' context))"







text \<open>A result that was reached within the bound on the pagination loop.\<close>

definition returned :: "'a \<times> client \<Rightarrow> 'a option \<times> client" where
  "returned r = (Some (fst r), snd r)"


section \<open>An example workspace\<close>

text \<open>
  A workspace with one direct-message conversation \<open>D1\<close>, with the user \<open>U1\<close> whose real
  name is Jen Rexford, and one public channel \<open>C1\<close> named general that holds three messages, the second
  of them without text.
\<close>

definition example_dm :: raw_conv where
  "example_dm = \<lparr>rc_id = ''D1'', rc_is_im = Some True, rc_is_mpim = None, rc_is_private = None,
     rc_user = Some ''U1'', rc_name = None, rc_is_member = None, rc_is_archived = None,
     rc_unread_count = None, rc_last_read = None\<rparr>"

definition example_channel :: raw_conv where
  "example_channel = \<lparr>rc_id = ''C1'', rc_is_im = None, rc_is_mpim = None, rc_is_private = Some False,
     rc_user = None, rc_name = Some ''general'', rc_is_member = Some True,
     rc_is_archived = Some False, rc_unread_count = None, rc_last_read = None\<rparr>"

definition example_msg :: "string \<Rightarrow> string \<Rightarrow> raw_msg" where
  "example_msg ts txt = \<lparr>rm_subtype = None, rm_user = Some ''U1'', rm_text = Some txt,
     rm_ts = Some ts, rm_thread_ts = None, rm_reply_count = None\<rparr>"

definition example_history :: "raw_msg list" where
  "example_history =
     [example_msg ''1700000300.000000'' ''later'',
      example_msg ''1700000200.000000'' [],
      example_msg ''1700000100.000000''
        ''Can you review the draft of the quarterly report before the meeting on Friday?'']"

definition example_env :: env where
  "example_env = \<lparr>
     auth_test = (\<lambda>log. Inr ''U0''),
     users_info = (\<lambda>log uid. if uid = ''U1''
        then Inr \<lparr>ru_name = Some ''jrexford'', ru_real_name = Some ''Jen Rexford'', ru_is_bot = None\<rparr>
        else Inl ''user_not_found''),
     conversations_list = (\<lambda>log types cursor.
        Inr \<lparr>pg_channels = (if types = ''im'' then [example_dm]
                            else if types = ''public_channel,private_channel'' then [example_channel]
                            else [example_dm, example_channel]),
             pg_next_cursor = None\<rparr>),
     conversations_history = (\<lambda>log args. if ha_channel args = ''C1''
        then Inr (case ha_latest args of
                    Some (TsStr ts) \<Rightarrow> filter (\<lambda>m. rm_ts m = Some ts) example_history
                  | _ \<Rightarrow> example_history)
        else Inl ''channel_not_found''),
     conversations_replies = (\<lambda>log channel ts limit. Inl ''thread_not_found''),
     chat_postMessage = (\<lambda>log channel txt thread_ts. Inr ''1700000300.000000''),
     py_float = (\<lambda>ts. if ts = ''1700000300.000000'' then Some 1700000300
                      else if ts = ''1700000200.000000'' then Some 1700000200
                      else if ts = ''1700000100.000000'' then Some 1700000100 else None)\<rparr>"

text \<open>The same workspace when the backend refuses every history request.\<close>

definition throttled_env :: env where
  "throttled_env = example_env\<lparr>conversations_history := (\<lambda>log args. Inl ''ratelimited'')\<rparr>"



text \<open>The conversations of the example workspace as \<open>get_conversations\<close> lists them.\<close>

definition example_directory :: "conversation list" where
  "example_directory =
     [\<lparr>c_id = ''D1'', c_name = ''@user:U1'', c_type = ''dm'', c_is_member = True,
       c_is_archived = False, c_unread_count = 0, c_last_read = None, c_latest_message = None\<rparr>,
      \<lparr>c_id = ''C1'', c_name = ''#general'', c_type = ''channel'', c_is_member = True,
       c_is_archived = False, c_unread_count = 0, c_last_read = None, c_latest_message = None\<rparr>]"

text \<open>A client that has made no request yet.\<close>

definition new_client :: client where
  "new_client = \<lparr>user_cache = Map.empty, my_user_id_cache = None, conversations_cache = None,
     conversations_cache_time = 0, api_log = []\<rparr>"

section \<open>The unread operation and its tool handler\<close>

text \<open>\<open>d[key] = value\<close> on a dictionary kept as the list of its items in insertion
  order.\<close>

fun dict_set :: "'k \<Rightarrow> 'v \<Rightarrow> ('k \<times> 'v) list \<Rightarrow> ('k \<times> 'v) list" where
  "dict_set k v [] = [(k, v)]"
| "dict_set k v ((k', v') # d) = (if k' = k then (k, v) # d else (k', v') # dict_set k v d)"

text \<open>The loop of \<open>get_unread_messages\<close> over the conversations; the last list is the
  dictionary \<open>unread\<close> built so far.\<close>

fun unread_loop ::
  "env \<Rightarrow> rat \<Rightarrow> conversation list \<Rightarrow> (string \<times> message list) list \<Rightarrow> client
   \<Rightarrow> (exn + (string \<times> message list) list) \<times> client" where
  "unread_loop e cutoff [] unread s = (Inr unread, s)"
| "unread_loop e cutoff (conv # convs) unread s =
     (if c_is_archived conv then unread_loop e cutoff convs unread s
      else
        (case (if nonempty_opt (c_last_read conv)
               then (case py_float e (the (c_last_read conv)) of
                       None \<Rightarrow> Inl (ValueError (''could not convert string to float: ''
                                  @ the (c_last_read conv)))
                     | Some x \<Rightarrow> Inr x)
               else Inr cutoff) of
           Inl x \<Rightarrow> (Inl x, s)
         | Inr oldest \<Rightarrow>
             (case get_messages e (c_id conv) 50 (Some oldest) None s of
                (Inl x, s1) \<Rightarrow> (Inl x, s1)
              | (Inr messages, s1) \<Rightarrow>
                  unread_loop e cutoff convs
                    (if messages \<noteq> []
                     then dict_set (c_name conv)
                            (map (\<lambda>msg. msg\<lparr>m_channel_name := c_name conv\<rparr>) messages) unread
                     else unread) s1)))"

text \<open>\<open>SlackClient.get_unread_messages(self, hours)\<close>; \<open>t0\<close> is the reading of
  \<open>time.time()\<close> for the cutoff.\<close>

definition get_unread_messages ::
  "nat \<Rightarrow> env \<Rightarrow> rat \<Rightarrow> rat \<Rightarrow> rat \<Rightarrow> int \<Rightarrow> client
   \<Rightarrow> (exn + (string \<times> message list) list) option \<times> client" where
  "get_unread_messages fuel e t0 now later hours s =
     (let cutoff = t0 - of_int (hours * 3600) in
      case get_conversations fuel e now later all_types True s of
        (None, s1) \<Rightarrow> (None, s1)
      | (Some (Inl x), s1) \<Rightarrow> (Some (Inl x), s1)
      | (Some (Inr conversations), s1) \<Rightarrow> returned (unread_loop e cutoff conversations [] s1))"

text \<open>The parameters that \<open>get_unread_messages\<close> declares besides \<open>self\<close>.\<close>

definition get_unread_messages_params :: "string list" where
  "get_unread_messages_params = [''hours'']"

text \<open>
  Python's binding of keyword arguments to a function without \<open>**kwargs\<close>: a keyword that
  names no parameter raises \<open>TypeError\<close>, reported for the first such keyword.
\<close>

definition bind_keywords :: "string \<Rightarrow> string list \<Rightarrow> (string \<times> 'v) list \<Rightarrow> exn + (string \<times> 'v) list" where
  "bind_keywords fname params kwargs =
     (case find (\<lambda>k. k \<notin> set params) (map fst kwargs) of
        Some k \<Rightarrow> Inl (TypeError (fname @ ''() got an unexpected keyword argument ''
                        @ [CHR 0x27] @ k @ [CHR 0x27]))
      | None \<Rightarrow> Inr kwargs)"

text \<open>The classes \<open>WorkspaceConfig\<close> and \<open>Config\<close>; the dictionary \<open>workspaces\<close> is the
  list of its items.\<close>

record workspace_config =
  w_key :: string
  w_name :: string
  w_token :: string
  w_priority :: int

record config =
  workspaces :: "(string \<times> workspace_config) list"
  default_workspace :: "string option"

text \<open>\<open>Config.get_workspace\<close>\<close>

definition get_workspace :: "config \<Rightarrow> string option \<Rightarrow> exn + workspace_config" where
  "get_workspace cfg key =
     (let key = (if key = None then default_workspace cfg else key) in
      case key of
        None \<Rightarrow> (case workspaces cfg of [] \<Rightarrow> Inl StopIteration | (k, w) # _ \<Rightarrow> Inr w)
      | Some k \<Rightarrow>
          (case map_of (workspaces cfg) k of
             None \<Rightarrow> Inl (ValueError (''Unknown workspace: '' @ k))
           | Some w \<Rightarrow> Inr w))"

text \<open>
  \<open>get_client\<close> of the server: \<open>loaded\<close> is what \<open>get_config()\<close> gives (loading the
  configuration may raise), \<open>clients\<close> is the dictionary \<open>_clients\<close>.
\<close>

definition get_client ::
  "exn + config \<Rightarrow> (string \<rightharpoonup> client) \<Rightarrow> string option
   \<Rightarrow> (exn + string \<times> client) \<times> (string \<rightharpoonup> client)" where
  "get_client loaded clients workspace =
     (case loaded of
        Inl x \<Rightarrow> (Inl x, clients)
      | Inr cfg \<Rightarrow>
          (case get_workspace cfg workspace of
             Inl x \<Rightarrow> (Inl x, clients)
           | Inr ws \<Rightarrow>
               (let clients' = (if clients (w_key ws) = None
                                then clients(w_key ws \<mapsto> new_client) else clients)
                in (Inr (w_key ws, the (clients' (w_key ws))), clients'))))"

text \<open>The arguments of the tool call that the handler reads.\<close>

record tool_args =
  ta_workspace :: "string option"
  ta_hours :: "int option"
  ta_max_dms :: "int option"
  ta_max_channels :: "int option"

text \<open>
  The branch of \<open>_handle_tool\<close> for the name \<open>slack_unread\<close>. The rendering of a non-empty
  result into lines is the argument \<open>render\<close>.
\<close>

definition handle_slack_unread ::
  "nat \<Rightarrow> env \<Rightarrow> rat \<Rightarrow> rat \<Rightarrow> rat \<Rightarrow> ((string \<times> message list) list \<Rightarrow> string)
   \<Rightarrow> exn + config \<Rightarrow> (string \<rightharpoonup> client) \<Rightarrow> tool_args
   \<Rightarrow> (exn + string) option \<times> (string \<rightharpoonup> client)" where
  "handle_slack_unread fuel e t0 now later render loaded clients args =
     (case get_client loaded clients (ta_workspace args) of
        (Inl x, clients1) \<Rightarrow> (Some (Inl x), clients1)
      | (Inr (key, client), clients1) \<Rightarrow>
          (let hours = get_or (ta_hours args) 24;
               max_dms = get_or (ta_max_dms args) 15;
               max_channels = get_or (ta_max_channels args) 15
           in case bind_keywords ''SlackClient.get_unread_messages'' get_unread_messages_params
                     [(''hours'', hours), (''max_dms'', max_dms), (''max_channels'', max_channels)] of
                Inl x \<Rightarrow> (Some (Inl x), clients1)
              | Inr bound \<Rightarrow>
                  (case get_unread_messages fuel e t0 now later (get_or (map_of bound ''hours'') 24)
                          client of
                     (None, client1) \<Rightarrow> (None, clients1(key \<mapsto> client1))
                   | (Some (Inl x), client1) \<Rightarrow> (Some (Inl x), clients1(key \<mapsto> client1))
                   | (Some (Inr unread), client1) \<Rightarrow>
                       (Some (Inr (if unread = [] then ''No unread messages.'' else render unread)),
                        clients1(key \<mapsto> client1)))))"

text \<open>The text of an exception, \<open>str(e)\<close>. The text of a \<open>SlackApiError\<close> is composed by
  the SDK; its error code stands for it here.\<close>

fun exn_message :: "exn \<Rightarrow> string" where
  "exn_message (SlackApiError code) = code"
| "exn_message (ValueError m) = m"
| "exn_message (TypeError m) = m"
| "exn_message (KeyError k) = [CHR 0x27] @ k @ [CHR 0x27]"
| "exn_message StopIteration = []"

text \<open>\<open>call_tool\<close>: the result of the handler as text, an exception as \<open>Error:\<close> and its
  text.\<close>

definition call_tool_text :: "exn + string \<Rightarrow> string" where
  "call_tool_text r = (case r of Inr result \<Rightarrow> result | Inl x \<Rightarrow> ''Error: '' @ exn_message x)"

text \<open>The \<open>TypeError\<close> that the call of \<open>get_unread_messages\<close> in the handler raises.\<close>

definition unread_type_error :: exn where
  "unread_type_error = TypeError (''SlackClient.get_unread_messages() got an unexpected keyword argument ''
     @ [CHR 0x27] @ ''max_dms'' @ [CHR 0x27])"

text \<open>A configuration with one workspace, which is the default.\<close>

definition example_config :: config where
  "example_config = \<lparr>workspaces = [(''default'',
       \<lparr>w_key = ''default'', w_name = ''Slack'', w_token = ''xoxp-1'', w_priority = 1\<rparr>)],
     default_workspace = Some ''default''\<rparr>"

section \<open>Auxiliary notions for the proofs\<close>

text \<open>A string is tidy when whitespace occurs in it only as single blanks between two
  other characters; these are the strings that whitespace collapsing leaves alone.\<close>

text \<open>The inputs a pattern can leave over when it matches at the head of \<open>s\<close>.\<close>

definition rests :: "rx \<Rightarrow> bool \<Rightarrow> string \<Rightarrow> string set" where
  "rests p b s = snd ` set (rx_match p b s)"

fun tidy_rest :: "string \<Rightarrow> bool" where
  "tidy_rest [] = True"
| "tidy_rest (c # cs) =
     (if py_isspace c then c = CHR '' '' \<and> cs \<noteq> [] \<and> \<not> py_isspace (hd cs) \<and> tidy_rest cs
      else tidy_rest cs)"

definition tidy :: "string \<Rightarrow> bool" where
  "tidy s = (tidy_rest s \<and> (s = [] \<or> \<not> py_isspace (hd s)))"

definition spacefree :: "string \<Rightarrow> bool" where
  "spacefree u = (\<forall>c\<in>set u. \<not> py_isspace c)"

section \<open>Kind classification\<close>

text \<open>
  C9: kind classification is total and deterministic: every conversation record maps
  to exactly one of the four kinds \<open>dm\<close>, \<open>mpim\<close>, \<open>group\<close>, \<open>channel\<close>, and when several
  flags are set the precedence is direct message over group direct message over private
  channel over channel.
\<close>

theorem get_conversation_type_total_precedence:
  "get_conversation_type conv \<in> {''dm'', ''mpim'', ''group'', ''channel''}
   \<and> (truthy (rc_is_im conv) \<longrightarrow> get_conversation_type conv = ''dm'')
   \<and> (\<not> truthy (rc_is_im conv) \<and> truthy (rc_is_mpim conv)
        \<longrightarrow> get_conversation_type conv = ''mpim'')
   \<and> (\<not> truthy (rc_is_im conv) \<and> \<not> truthy (rc_is_mpim conv) \<and> truthy (rc_is_private conv)
        \<longrightarrow> get_conversation_type conv = ''group'')
   \<and> (\<not> truthy (rc_is_im conv) \<and> \<not> truthy (rc_is_mpim conv) \<and> \<not> truthy (rc_is_private conv)
        \<longrightarrow> get_conversation_type conv = ''channel'')"
  by (simp add: get_conversation_type_def)

theorem get_conversation_type_total_precedence_witness:
  "get_conversation_type
     \<lparr>rc_id = ''D1'', rc_is_im = Some True, rc_is_mpim = Some True, rc_is_private = Some True,
      rc_user = None, rc_name = None, rc_is_member = None, rc_is_archived = None,
      rc_unread_count = None, rc_last_read = None\<rparr> = ''dm''
   \<and> get_conversation_type
     \<lparr>rc_id = ''G1'', rc_is_im = Some False, rc_is_mpim = Some True, rc_is_private = Some True,
      rc_user = None, rc_name = None, rc_is_member = None, rc_is_archived = None,
      rc_unread_count = None, rc_last_read = None\<rparr> = ''mpim''
   \<and> get_conversation_type
     \<lparr>rc_id = ''G2'', rc_is_im = None, rc_is_mpim = None, rc_is_private = Some True,
      rc_user = None, rc_name = None, rc_is_member = None, rc_is_archived = None,
      rc_unread_count = None, rc_last_read = None\<rparr> = ''group''
   \<and> get_conversation_type
     \<lparr>rc_id = ''C1'', rc_is_im = None, rc_is_mpim = None, rc_is_private = None,
      rc_user = None, rc_name = None, rc_is_member = None, rc_is_archived = None,
      rc_unread_count = None, rc_last_read = None\<rparr> = ''channel''"
  using get_conversation_type_total_precedence
    [of "\<lparr>rc_id = ''D1'', rc_is_im = Some True, rc_is_mpim = Some True, rc_is_private = Some True,
      rc_user = None, rc_name = None, rc_is_member = None, rc_is_archived = None,
      rc_unread_count = None, rc_last_read = None\<rparr>"]
    get_conversation_type_total_precedence
    [of "\<lparr>rc_id = ''G1'', rc_is_im = Some False, rc_is_mpim = Some True, rc_is_private = Some True,
      rc_user = None, rc_name = None, rc_is_member = None, rc_is_archived = None,
      rc_unread_count = None, rc_last_read = None\<rparr>"]
    get_conversation_type_total_precedence
    [of "\<lparr>rc_id = ''G2'', rc_is_im = None, rc_is_mpim = None, rc_is_private = Some True,
      rc_user = None, rc_name = None, rc_is_member = None, rc_is_archived = None,
      rc_unread_count = None, rc_last_read = None\<rparr>"]
    get_conversation_type_total_precedence
    [of "\<lparr>rc_id = ''C1'', rc_is_im = None, rc_is_mpim = None, rc_is_private = None,
      rc_user = None, rc_name = None, rc_is_member = None, rc_is_archived = None,
      rc_unread_count = None, rc_last_read = None\<rparr>"]
  by (simp add: truthy_def)

section \<open>Truncation\<close>

lemma py_slice_to_length: "0 \<le> k \<Longrightarrow> length (py_slice_to s k) \<le> nat k"
  by (simp add: py_slice_to_def)

lemma truncate_text_length_le:
  assumes "3 \<le> n" shows "int (length (truncate_text t n)) \<le> n"
proof -
  have "length (py_slice_to (collapse_ws (rewrite_markup t)) (n - 3)) \<le> nat (n - 3)"
    using assms by (intro py_slice_to_length) simp
  then show ?thesis using assms unfolding truncate_text_def Let_def by (simp split: if_splits) linarith
qed

lemma sub_from_no_match:
  "(\<And>b t. suffix t s \<Longrightarrow> rx_match p b t = []) \<Longrightarrow> sub_from p repl bos s = s"
proof (induction s arbitrary: bos)
  case Nil
  then show ?case by (subst sub_from.simps) simp
next
  case (Cons c cs)
  have m: "rx_match p bos (c # cs) = []" using Cons.prems by (simp add: suffix_order.refl)
  have "sub_from p repl False cs = cs"
    using Cons.prems by (intro Cons.IH) (simp add: suffix_Cons)
  then show ?case using m by (subst sub_from.simps) simp
qed

lemma rx_match_Seq_Lit_nil: "\<not> prefix w s \<Longrightarrow> rx_match (Seq (Lit w) r) b s = []"
  by simp

lemma no_lt_no_prefix: "CHR ''<'' \<notin> set s \<Longrightarrow> \<not> prefix (CHR ''<'' # w) s"
  by (cases s) auto

lemma no_lt_suffix: "CHR ''<'' \<notin> set s \<Longrightarrow> suffix t s \<Longrightarrow> CHR ''<'' \<notin> set t"
  using set_mono_suffix by blast

lemma re_sub_no_lt:
  assumes "CHR ''<'' \<notin> set s" and "p = Seq (Lit (CHR ''<'' # w)) r"
  shows "re_sub p repl s = s"
  unfolding re_sub_def
  by (rule sub_from_no_match) (use assms in \<open>simp add: no_lt_no_prefix no_lt_suffix\<close>)

lemma rewrite_markup_no_lt: "CHR ''<'' \<notin> set s \<Longrightarrow> rewrite_markup s = s"
  by (simp add: rewrite_markup_def re_sub_no_lt pat_link_def pat_link_text_def
      pat_channel_mention_def pat_user_mention_def seqs_def)

lemma split_acc_nonempty: "w \<noteq> [] \<Longrightarrow> split_acc s w \<noteq> []"
  by (induction s arbitrary: w) auto

lemma py_join_Cons: "ys \<noteq> [] \<Longrightarrow> py_join sep (x # ys) = x @ sep @ py_join sep ys"
  by (cases ys) auto

lemma join_split_acc_tidy:
  "tidy_rest s \<Longrightarrow> (w = [] \<Longrightarrow> s = [] \<or> \<not> py_isspace (hd s))
   \<Longrightarrow> py_join '' '' (split_acc s w) = w @ s"
proof (induction s arbitrary: w)
  case Nil
  then show ?case by simp
next
  case (Cons c cs)
  show ?case
  proof (cases "py_isspace c")
    case False
    then have "tidy_rest cs" using Cons.prems(1) by simp
    then have "py_join '' '' (split_acc cs (w @ [c])) = (w @ [c]) @ cs"
      by (intro Cons.IH) simp_all
    then show ?thesis using False by simp
  next
    case True
    then have w: "w \<noteq> []" using Cons.prems(2) by auto
    from True Cons.prems(1) have c: "c = CHR '' ''" and cs: "cs \<noteq> []"
      and h: "\<not> py_isspace (hd cs)" and t: "tidy_rest cs" by simp_all
    have ih: "py_join '' '' (split_acc cs []) = [] @ cs"
      using t h by (intro Cons.IH) simp_all
    obtain d ds where dds: "cs = d # ds" using cs by (cases cs) auto
    have ne: "split_acc cs [] \<noteq> []"
      using h dds by (simp add: split_acc_nonempty)
    show ?thesis using True w c ih ne by (simp add: py_join_Cons)
  qed
qed

lemma collapse_ws_tidy: "tidy s \<Longrightarrow> collapse_ws s = s"
  unfolding collapse_ws_def py_split_def tidy_def
  using join_split_acc_tidy [of s "[]"] by auto

lemma split_acc_words:
  "spacefree w \<Longrightarrow> u \<in> set (split_acc s w) \<Longrightarrow> u \<noteq> [] \<and> spacefree u"
proof (induction s arbitrary: w)
  case Nil
  then show ?case by (auto split: if_splits)
next
  case (Cons c cs)
  show ?case
  proof (cases "py_isspace c")
    case True
    have e: "spacefree []" by (simp add: spacefree_def)
    show ?thesis using True Cons.prems Cons.IH [OF e] by (auto split: if_splits)
  next
    case False
    then have "spacefree (w @ [c])" using Cons.prems(1) by (simp add: spacefree_def)
    then show ?thesis using False Cons.prems(2) Cons.IH by auto
  qed
qed

lemma tidy_rest_append_word: "spacefree u \<Longrightarrow> tidy_rest s \<Longrightarrow> tidy_rest (u @ s)"
  by (induction u) (auto simp: spacefree_def)

lemma space_is_space: "py_isspace (CHR '' '')"
  by (simp add: py_isspace_def)

lemma tidy_join_words:
  "(\<And>u. u \<in> set ws \<Longrightarrow> u \<noteq> [] \<and> spacefree u) \<Longrightarrow> tidy (py_join '' '' ws)"
proof (induction "'' ''" ws rule: py_join.induct)
  case 1
  then show ?case by (simp add: tidy_def)
next
  case (2 x)
  then have "x \<noteq> []" "spacefree x" by auto
  then show ?case
    using tidy_rest_append_word [of x "[]"] by (cases x) (auto simp: tidy_def spacefree_def)
next
  case (3 x y ys)
  have x: "x \<noteq> []" "spacefree x" using 3(2) by auto
  have y: "y \<noteq> []" "spacefree y" using 3(2) by auto
  have t: "tidy (py_join '' '' (y # ys))" using 3 by auto
  have ne: "py_join '' '' (y # ys) \<noteq> []" using y by (cases ys) auto
  have hdy: "hd (py_join '' '' (y # ys)) = hd y" using y by (cases ys) auto
  have "tidy_rest (CHR '' '' # py_join '' '' (y # ys))"
    using t ne by (simp add: tidy_def space_is_space)
  then have "tidy_rest (x @ CHR '' '' # py_join '' '' (y # ys))"
    using x tidy_rest_append_word by blast
  then show ?case using x by (cases x) (auto simp: tidy_def spacefree_def)
qed

lemma tidy_collapse_ws: "tidy (collapse_ws s)"
  unfolding collapse_ws_def py_split_def
  by (rule tidy_join_words) (rule split_acc_words [of "[]"], simp_all add: spacefree_def)

lemma dot_not_space: "\<not> py_isspace (CHR ''.'')"
  by (simp add: py_isspace_def)

lemma tidy_rest_take_dots: "tidy_rest s \<Longrightarrow> tidy_rest (take k s @ ''...'')"
proof (induction s arbitrary: k)
  case Nil
  then show ?case by (simp add: dot_not_space)
next
  case (Cons c cs)
  show ?case
  proof (cases k)
    case 0
    then show ?thesis by (simp add: dot_not_space)
  next
    case (Suc j)
    have t: "tidy_rest cs" using Cons.prems by (simp split: if_splits)
    have ih: "tidy_rest (take j cs @ ''...'')" using Cons.IH [OF t] .
    have hd: "py_isspace c \<Longrightarrow> \<not> py_isspace (hd (take j cs @ ''...''))"
      using Cons.prems by (cases j; cases cs) (auto simp: dot_not_space)
    show ?thesis using Suc ih hd Cons.prems by (auto split: if_splits)
  qed
qed

lemma tidy_take_dots: "tidy s \<Longrightarrow> tidy (take k s @ ''...'')"
  unfolding tidy_def using tidy_rest_take_dots [of s k]
  by (cases k; cases s) (auto simp: dot_not_space)

lemma tidy_truncate_text: "3 \<le> n \<Longrightarrow> tidy (truncate_text t n)"
  by (simp add: truncate_text_def Let_def py_slice_to_def tidy_collapse_ws tidy_take_dots)

text \<open>
  C8, as amended: for \<open>max_len\<close> of at least 3, when the result of \<open>truncate_text\<close>
  contains no \<open><\<close>, applying \<open>truncate_text\<close> to it again with the same \<open>max_len\<close>
  changes nothing.
\<close>

theorem truncate_text_idempotent_clean:
  assumes "3 \<le> n" and "CHR ''<'' \<notin> set (truncate_text t n)"
  shows "truncate_text (truncate_text t n) n = truncate_text t n"
proof -
  let ?r = "truncate_text t n"
  have 1: "rewrite_markup ?r = ?r" using assms(2) by (rule rewrite_markup_no_lt)
  have 2: "collapse_ws ?r = ?r" using assms(1) by (intro collapse_ws_tidy tidy_truncate_text)
  have 3: "int (length ?r) \<le> n" using assms(1) by (rule truncate_text_length_le)
  have "truncate_text ?r n = (let u = collapse_ws (rewrite_markup ?r) in
      if int (length u) \<le> n then u else py_slice_to u (n - 3) @ ''...'')"
    by (simp only: truncate_text_def [of ?r n])
  then show ?thesis using 1 2 3 by simp
qed

theorem truncate_text_idempotent_clean_witness:
  "(3::int) \<le> 12 \<and> CHR ''<'' \<notin> set (truncate_text ''hi <@U1>,   are you there'' 12)
   \<and> truncate_text (truncate_text ''hi <@U1>,   are you there'' 12) 12 = ''hi @user,...''"
proof -
  have h1: "(3::int) \<le> 12" by simp
  have v: "truncate_text ''hi <@U1>,   are you there'' 12 = ''hi @user,...''" by code_simp
  have h2: "CHR ''<'' \<notin> set (truncate_text ''hi <@U1>,   are you there'' 12)"
    unfolding v by simp
  show ?thesis using truncate_text_idempotent_clean [OF h1 h2] h1 h2 v by simp
qed

text \<open>
  The markup rewriting is a single pass, so idempotence fails in general: \<open><<a>>\<close> is
  rewritten to \<open><a>\<close>, and that to \<open>a\<close>.
\<close>

theorem truncate_text_not_idempotent:
  "truncate_text (truncate_text ''<<a>>'' 100) 100 \<noteq> truncate_text ''<<a>>'' 100"
  by code_simp

text \<open>
  C7: \<open>truncate_text\<close> is meant to return at most \<open>max_len\<close> characters, the ellipsis
  included. For \<open>max_len\<close> below 3 the slice bound \<open>max_len - 3\<close> is negative and counts
  from the end: \<open>truncate_text("abcdef", 2)\<close> is \<open>"abcde..."\<close>, eight characters.
\<close>

theorem truncate_text_exceeds_max_len:
  "truncate_text ''abcdef'' 2 = ''abcde...'' \<and> int (length (truncate_text ''abcdef'' 2)) = 8"
proof -
  have v: "truncate_text ''abcdef'' 2 = ''abcde...''" by code_simp
  show ?thesis unfolding v by simp
qed

section \<open>Action-item classification against its specification\<close>

lemma rx_match_nonempty: "rx_match p b s \<noteq> [] \<longleftrightarrow> rests p b s \<noteq> {}"
  by (simp add: rests_def)

lemma in_rests_Lit: "r \<in> rests (Lit w) b s \<longleftrightarrow> s = w @ r"
  by (auto simp: rests_def prefix_def)

lemma in_rests_One: "r \<in> rests (One k) b s \<longleftrightarrow> (\<exists>c. s = c # r \<and> in_cls k c)"
  by (cases s) (auto simp: rests_def)

lemma rests_Plus:
  "rests (Plus k) b s = (\<lambda>n. drop n s) ` {1 .. length (takeWhile (in_cls k) s)}"
  by (auto simp: rests_def image_image)

lemma in_rests_Plus:
  "r \<in> rests (Plus k) b s \<longleftrightarrow> (\<exists>ws. ws \<noteq> [] \<and> (\<forall>c\<in>set ws. in_cls k c) \<and> s = ws @ r)"
proof
  assume "r \<in> rests (Plus k) b s"
  then obtain n where n: "1 \<le> n" "n \<le> length (takeWhile (in_cls k) s)" and r: "r = drop n s"
    by (auto simp: rests_Plus)
  have le: "n \<le> length s" using n(2) length_takeWhile_le [of "in_cls k" s] by linarith
  have "take n s = take n (takeWhile (in_cls k) s)"
    using n(2) by (metis append_eq_conv_conj takeWhile_dropWhile_id take_append min.absorb2 take_all_iff
        append_Nil2 diff_is_0_eq' length_take take0)
  then have "\<forall>c\<in>set (take n s). in_cls k c"
    by (metis in_set_takeD set_takeWhileD)
  moreover have "take n s \<noteq> []" using n(1) le by (cases s) auto
  moreover have "s = take n s @ r" using r by simp
  ultimately show "\<exists>ws. ws \<noteq> [] \<and> (\<forall>c\<in>set ws. in_cls k c) \<and> s = ws @ r" by blast
next
  assume "\<exists>ws. ws \<noteq> [] \<and> (\<forall>c\<in>set ws. in_cls k c) \<and> s = ws @ r"
  then obtain ws where ws: "ws \<noteq> []" "\<forall>c\<in>set ws. in_cls k c" "s = ws @ r" by blast
  have "takeWhile (in_cls k) s = ws @ takeWhile (in_cls k) r"
    using ws by (simp add: takeWhile_append2)
  then have "length ws \<in> {1 .. length (takeWhile (in_cls k) s)}"
    using ws(1) by (cases ws) auto
  moreover have "r = drop (length ws) s" using ws(3) by simp
  ultimately show "r \<in> rests (Plus k) b s"
    unfolding rests_Plus by blast
qed

lemma in_rests_Opt: "r \<in> rests (Opt a) b s \<longleftrightarrow> r = s \<or> r \<in> rests a b s"
  by (auto simp: rests_def)

lemma in_rests_Alt: "r \<in> rests (Alt a c) b s \<longleftrightarrow> r \<in> rests a b s \<or> r \<in> rests c b s"
  by (auto simp: rests_def)

lemma in_rests_Grp: "r \<in> rests (Grp a) b s \<longleftrightarrow> r \<in> rests a b s"
  by (force simp: rests_def image_image split_def)

lemma in_rests_Bol: "r \<in> rests Bol b s \<longleftrightarrow> b \<and> r = s"
  by (auto simp: rests_def)

lemma in_rests_Eol: "r \<in> rests Eol b s \<longleftrightarrow> r = s \<and> (s = [] \<or> s = [newline])"
  by (auto simp: rests_def)

lemma in_rests_Seq:
  "r \<in> rests (Seq a c) b s \<longleftrightarrow> (\<exists>m. m \<in> rests a b s \<and> r \<in> rests c (b \<and> length m = length s) m)"
  by (force simp: rests_def image_image split_def image_UN)

lemma alts_Cons: "rs \<noteq> [] \<Longrightarrow> alts (r # rs) = Alt r (alts rs)"
  by (simp add: alts_def)

lemma in_rests_alts_Lit:
  "vs \<noteq> [] \<Longrightarrow> r \<in> rests (alts (map Lit vs)) b s \<longleftrightarrow> (\<exists>v\<in>set vs. s = v @ r)"
proof (induction vs)
  case Nil
  then show ?case by simp
next
  case (Cons v vs)
  show ?case
  proof (cases "vs = []")
    case True
    then show ?thesis by (simp add: alts_def in_rests_Lit)
  next
    case False
    then show ?thesis using Cons.IH by (simp add: alts_Cons in_rests_Alt in_rests_Lit)
  qed
qed

lemmas in_rests = in_rests_Lit in_rests_One in_rests_Plus in_rests_Opt in_rests_Alt
  in_rests_Grp in_rests_Bol in_rests_Eol in_rests_Seq in_rests_alts_Lit

lemma rests_nonempty: "rests p b s \<noteq> {} \<longleftrightarrow> (\<exists>r. r \<in> rests p b s)"
  by auto

lemma search_from_iff:
  "search_from p bos s \<longleftrightarrow> (\<exists>u. suffix u s \<and> rests p (bos \<and> u = s) u \<noteq> {})"
proof (induction s arbitrary: bos)
  case Nil
  then show ?case by (simp add: rx_match_nonempty)
next
  case (Cons c cs)
  have ne: "\<And>u. suffix u cs \<Longrightarrow> u \<noteq> c # cs"
    using suffix_length_le by fastforce
  have "(\<exists>u. suffix u (c # cs) \<and> rests p (bos \<and> u = c # cs) u \<noteq> {})
        \<longleftrightarrow> rests p bos (c # cs) \<noteq> {} \<or> (\<exists>u. suffix u cs \<and> rests p (bos \<and> u = c # cs) u \<noteq> {})"
    by (auto simp: suffix_Cons)
  also have "(\<exists>u. suffix u cs \<and> rests p (bos \<and> u = c # cs) u \<noteq> {})
        \<longleftrightarrow> (\<exists>u. suffix u cs \<and> rests p False u \<noteq> {})"
    using ne by auto
  also have "\<dots> \<longleftrightarrow> search_from p False cs"
    by (simp add: Cons.IH)
  finally show ?case by (simp add: rx_match_nonempty)
qed

lemma sublist_iff_suffix_prefix: "sublist w t \<longleftrightarrow> (\<exists>u. suffix u t \<and> prefix w u)"
  by (auto simp: sublist_def suffix_def prefix_def)

lemma py_in_sublist: "py_in w t \<longleftrightarrow> sublist w t"
  by (induction t) (auto simp: sublist_Cons_right)


lemma re_search_iff:
  "re_search p t \<longleftrightarrow> (\<exists>u r. suffix u t \<and> r \<in> rests p (u = t) u)"
  unfolding re_search_def search_from_iff by auto

lemma search_alts:
  assumes "vs \<noteq> []"
  shows "re_search (Grp (alts (map Lit vs))) t \<longleftrightarrow> (\<exists>v\<in>set vs. sublist v t)"
  unfolding re_search_iff using assms
  by (auto simp: in_rests sublist_def suffix_def)

lemma search_alts_lit:
  assumes "vs \<noteq> []"
  shows "re_search (Seq (Grp (alts (map Lit vs))) (Lit w)) t \<longleftrightarrow> (\<exists>v\<in>set vs. sublist (v @ w) t)"
  unfolding re_search_iff using assms
  by (auto simp: in_rests sublist_def suffix_def)

lemma search_lit_alts:
  assumes "vs \<noteq> []"
  shows "re_search (Seq (Lit w) (Grp (alts (map Lit vs)))) t \<longleftrightarrow> (\<exists>v\<in>set vs. sublist (w @ v) t)"
  unfolding re_search_iff using assms
  by (auto simp: in_rests sublist_def suffix_def)

lemma search_alts_space:
  assumes "vs \<noteq> []"
  shows "re_search (Seq (Grp (alts (map Lit vs))) (One Space)) t
     \<longleftrightarrow> (\<exists>v\<in>set vs. \<exists>c. py_isspace c \<and> sublist (v @ [c]) t)"
  unfolding re_search_iff using assms
  by (auto simp: in_rests sublist_def suffix_def)

lemma search_alts_spaces_alts:
  assumes "vs \<noteq> []" "ys \<noteq> []"
  shows "re_search (seqs [Grp (alts (map Lit vs)), Plus Space, Grp (alts (map Lit ys))]) t
     \<longleftrightarrow> (\<exists>v\<in>set vs. \<exists>y\<in>set ys. \<exists>ws. ws \<noteq> [] \<and> (\<forall>c\<in>set ws. py_isspace c)
            \<and> sublist (v @ ws @ y) t)"
proof -
  have "re_search (seqs [Grp (alts (map Lit vs)), Plus Space, Grp (alts (map Lit ys))]) t
      \<longleftrightarrow> (\<exists>zs m v ws y. t = zs @ v @ ws @ y @ m \<and> v \<in> set vs \<and> y \<in> set ys \<and> ws \<noteq> []
            \<and> (\<forall>c\<in>set ws. py_isspace c))"
    unfolding re_search_iff using assms
    by (simp add: in_rests suffix_def seqs_def) blast
  also have "\<dots> \<longleftrightarrow> (\<exists>v\<in>set vs. \<exists>y\<in>set ys. \<exists>ws. ws \<noteq> [] \<and> (\<forall>c\<in>set ws. py_isspace c)
            \<and> sublist (v @ ws @ y) t)"
    unfolding sublist_def by (simp only: append_assoc) blast
  finally show ?thesis .
qed

lemma search_bol_alts_space:
  assumes "vs \<noteq> []"
  shows "re_search (seqs [Bol, Grp (alts (map Lit vs)), One Space]) t
     \<longleftrightarrow> (\<exists>v\<in>set vs. \<exists>c. py_isspace c \<and> prefix (v @ [c]) t)"
  unfolding re_search_iff using assms
  by (auto simp: in_rests prefix_def suffix_def seqs_def)

lemma search_lit_eol:
  "re_search (Seq (Lit w) Eol) t \<longleftrightarrow> suffix w t \<or> suffix (w @ [newline]) t"
  unfolding re_search_iff
  by (auto simp: in_rests suffix_def)

lemma search_lit_opt:
  "re_search (Seq (Lit w) (Opt (Lit q))) t \<longleftrightarrow> sublist w t"
  unfolding re_search_iff
  by (auto simp: in_rests sublist_def suffix_def)

lemma is_action_item_characterisation:
  "is_action_item msg uid \<longleftrightarrow>
     sublist (mention_token uid) (m_text msg)
     \<and> (heuristic_as_specified (py_lower (m_text msg))
        \<or> suffix (''?'' @ [newline]) (py_lower (m_text msg)))"
proof -
  have m: "modal_verbs \<noteq> []" by (simp add: modal_verbs_def)
  show ?thesis
    unfolding is_action_item_def Let_def question_patterns_def heuristic_as_specified_def
      py_in_sublist
    by (simp only: search_alts search_alts_lit search_lit_alts search_alts_space
        search_alts_spaces_alts search_bol_alts_space [OF m] search_lit_eol search_lit_opt
        list_ex_Nil_iff list_ex_Cons_iff list.distinct not_False_eq_True simp_thms if_not_P if_P split: if_splits) blast
qed

text \<open>
  Apart from a final newline after a question mark, the classification is the specified
  one: \<open>is_action_item\<close> holds exactly when the text embeds the mention token of the
  caller's id and the lowercased text matches the heuristic as specified or ends with a
  question mark followed by one final newline. A text without the self-mention is never
  an action item, and the result depends on the text and the caller's id only.
\<close>

theorem is_action_item_iff:
  "(is_action_item msg uid \<longleftrightarrow>
      action_item_as_specified msg uid
      \<or> (sublist (mention_token uid) (m_text msg)
          \<and> suffix (''?'' @ [newline]) (py_lower (m_text msg))))
   \<and> (\<not> sublist (mention_token uid) (m_text msg) \<longrightarrow> \<not> is_action_item msg uid)"
  unfolding is_action_item_characterisation action_item_as_specified_def by blast

theorem is_action_item_iff_witness:
  "\<not> sublist (mention_token ''U1'') (m_text (text_message ''can you review this?''))
   \<and> \<not> is_action_item (text_message ''can you review this?'') ''U1''"
proof -
  have h: "\<not> sublist (mention_token ''U1'') (m_text (text_message ''can you review this?''))"
    by (simp add: mention_token_def text_message_def sublist_Cons_right)
  show ?thesis using is_action_item_iff [of "text_message ''can you review this?''" "''U1''"] h
    by blast
qed

text \<open>
  C6: a message is an action item exactly when it embeds the mention of the caller and
  its lowercased text matches one of the patterns, the first of which the source
  describes as "ends with question mark". The pattern written for it, \<^verbatim>\<open>\?$\<close>, also
  matches just before a newline that ends the text: the text \<open><@U1> 42?\<close> followed by a
  newline does not end with a question mark and matches no other pattern as specified,
  yet \<open>is_action_item\<close> classifies it as an action item.
\<close>

theorem is_action_item_trailing_newline:
  "is_action_item (text_message (''<@U1> 42?'' @ [newline])) ''U1''
   \<and> \<not> action_item_as_specified (text_message (''<@U1> 42?'' @ [newline])) ''U1''"
proof -
  have a: "is_action_item (text_message (''<@U1> 42?'' @ [newline])) ''U1''"
    by code_simp
  have l: "py_lower (m_text (text_message (''<@U1> 42?'' @ [newline]))) = ''<@u1> 42?'' @ [newline]"
    by code_simp
  have b: "\<not> heuristic_as_specified (''<@u1> 42?'' @ [newline])"
    by (simp add: heuristic_as_specified_def modal_verbs_def newline_def sublist_Cons_right
        suffix_to_prefix)
  show ?thesis using a b unfolding action_item_as_specified_def l by simp
qed

section \<open>Reference resolution and the conversation directory\<close>

text \<open>
  C10: a reference whose first character is \<open>C\<close>, \<open>D\<close> or \<open>G\<close> is returned unchanged, and
  the client is left as it was: no request is made and the conversation directory is not
  consulted, whatever the reference names.
\<close>

theorem resolve_channel_id_prefix:
  assumes "c \<in> {CHR ''C'', CHR ''D'', CHR ''G''}"
  shows "resolve_channel fuel e now later (c # rest) s = (Some (Inr (c # rest)), s)"
  using assms by (auto simp: resolve_channel_def)

theorem resolve_channel_id_prefix_witness:
  "CHR ''G'' \<in> {CHR ''C'', CHR ''D'', CHR ''G''}
   \<and> resolve_channel 0 example_env 0 1 ''General'' new_client = (Some (Inr ''General''), new_client)"
  using resolve_channel_id_prefix [of "CHR ''G''" 0 example_env 0 1 "''eneral''" new_client]
  by simp

lemma get_conversation_name_unresolved:
  "snd (get_conversation_name e conv conv_type False s) = s"
  by (simp add: get_conversation_name_def split: option.splits)

lemma build_conversations_state: "snd (build_conversations e convs s) = s"
proof (induction convs arbitrary: s)
  case Nil
  then show ?case by simp
next
  case (Cons conv convs)
  obtain name where n: "get_conversation_name e conv (get_conversation_type conv) False s = (name, s)"
    using get_conversation_name_unresolved [of e conv "get_conversation_type conv" s]
    by (metis prod.collapse)
  obtain cs where c: "build_conversations e convs s = (cs, s)"
    using Cons.IH [of s] by (metis prod.collapse)
  show ?case by (simp add: Let_def n c)
qed

lemma fetch_pages_requests:
  "fetch_pages fuel e types cursor acc s = (Some r, s1)
   \<Longrightarrow> \<exists>cursors. s1 = s\<lparr>api_log := api_log s @ map (ConversationsList types) (cursor # cursors)\<rparr>"
proof (induction fuel arbitrary: cursor acc s)
  case 0
  then show ?case by simp
next
  case (Suc n)
  let ?s1 = "logged (ConversationsList types cursor) s"
  show ?case
  proof (cases "conversations_list e (api_log s) types cursor")
    case (Inl code)
    then have "s1 = ?s1" using Suc.prems by (simp add: Let_def)
    then have "s1 = s\<lparr>api_log := api_log s @ map (ConversationsList types) (cursor # [])\<rparr>"
      by (simp add: logged_def)
    then show ?thesis by blast
  next
    case (Inr response)
    obtain cs where b: "build_conversations e (pg_channels response) ?s1 = (cs, ?s1)"
      using build_conversations_state [of e "pg_channels response" ?s1]
      by (metis prod.collapse)
    show ?thesis
    proof (cases "pg_next_cursor response = None \<or> pg_next_cursor response = Some []")
      case True
      then have "s1 = ?s1" using Suc.prems Inr b by (auto simp: Let_def)
      then have "s1 = s\<lparr>api_log := api_log s @ map (ConversationsList types) (cursor # [])\<rparr>"
        by (simp add: logged_def)
      then show ?thesis by blast
    next
      case False
      then obtain c where c: "pg_next_cursor response = Some c" "c \<noteq> []" by auto
      have "fetch_pages n e types (Some c) (acc @ cs) ?s1 = (Some r, s1)"
        using Suc.prems Inr b c by (simp add: Let_def)
      from Suc.IH [OF this] obtain cursors where
        "s1 = ?s1\<lparr>api_log := api_log ?s1 @ map (ConversationsList types) (Some c # cursors)\<rparr>"
        by blast
      then have "s1 = s\<lparr>api_log := api_log s
          @ map (ConversationsList types) (cursor # Some c # cursors)\<rparr>"
        by (simp add: logged_def)
      then show ?thesis by blast
    qed
  qed
qed

lemma example_full_fetch:
  "get_conversations (Suc 0) example_env 0 1 all_types True new_client
   = (Some (Inr example_directory),
      new_client\<lparr>conversations_cache := Some example_directory, conversations_cache_time := 1,
                 api_log := [ConversationsList all_types None]\<rparr>)"
  by (simp add: get_conversations_def cache_fresh_def new_client_def example_env_def all_types_def
      logged_def example_dm_def example_channel_def example_directory_def
      get_conversation_type_def truthy_def get_conversation_name_def get_or_def)

lemma example_subset_fetch:
  "get_conversations (Suc 0) example_env 0 1 ''im'' True new_client
   = (Some (Inr [hd example_directory]),
      new_client\<lparr>api_log := [ConversationsList ''im'' None]\<rparr>)"
  by (simp add: get_conversations_def cache_fresh_def new_client_def example_env_def all_types_def
      logged_def example_dm_def example_channel_def example_directory_def
      get_conversation_type_def truthy_def get_conversation_name_def get_or_def)

text \<open>
  C1, as amended: a call of \<open>get_conversations\<close> that is not answered from the cache
  sends its requests with the types of its caller, the first of them without a cursor;
  it stores its result and the time in the cache when these types are the default list
  of all types, and leaves the cache as it was otherwise. After such a call with the
  default list has returned a non-empty list, a call with \<open>use_cache\<close> on a client with
  that cache, made less than 300 seconds after the cache was stored, makes no request
  and returns the cached list filtered by the kinds it asks for, whatever these are.
\<close>

theorem get_conversations_fetch_and_cache:
  assumes "\<not> cache_fresh use_cache now s"
    and "get_conversations fuel e now later types use_cache s = (Some (Inr convs), s1)"
  shows "(\<exists>cursors. api_log s1 = api_log s @ map (ConversationsList types) (None # cursors))
    \<and> (types = all_types
        \<longrightarrow> conversations_cache s1 = Some convs \<and> conversations_cache_time s1 = later)
    \<and> (types \<noteq> all_types
        \<longrightarrow> conversations_cache s1 = conversations_cache s
            \<and> conversations_cache_time s1 = conversations_cache_time s)
    \<and> (types = all_types \<and> convs \<noteq> [] \<and> now2 - later < cache_ttl
        \<and> conversations_cache s2 = conversations_cache s1
        \<and> conversations_cache_time s2 = conversations_cache_time s1
        \<longrightarrow> get_conversations fuel2 e2 now2 later2 types2 True s2
            = (Some (Inr (filter (\<lambda>c. c_type c \<in> allowed_kinds types2) convs)), s2))"
proof -
  obtain s0 where f: "fetch_pages fuel e types None [] s = (Some (Inr convs), s0)"
    and s1: "s1 = (if types = all_types
                   then s0\<lparr>conversations_cache := Some convs, conversations_cache_time := later\<rparr>
                   else s0)"
    using assms unfolding get_conversations_def
    by (auto split: prod.splits option.splits sum.splits if_splits)
  from fetch_pages_requests [OF f] obtain cursors where
    s0: "s0 = s\<lparr>api_log := api_log s @ map (ConversationsList types) (None # cursors)\<rparr>"
    by blast
  have 1: "api_log s1 = api_log s @ map (ConversationsList types) (None # cursors)"
    by (simp add: s1 s0)
  have 2: "types = all_types
      \<Longrightarrow> conversations_cache s1 = Some convs \<and> conversations_cache_time s1 = later"
    by (simp add: s1)
  have 3: "types \<noteq> all_types
      \<Longrightarrow> conversations_cache s1 = conversations_cache s
          \<and> conversations_cache_time s1 = conversations_cache_time s"
    by (simp add: s1 s0)
  have 4: "get_conversations fuel2 e2 now2 later2 types2 True s2
        = (Some (Inr (filter (\<lambda>c. c_type c \<in> allowed_kinds types2) convs)), s2)"
    if "types = all_types" "convs \<noteq> []" "now2 - later < cache_ttl"
      "conversations_cache s2 = conversations_cache s1"
      "conversations_cache_time s2 = conversations_cache_time s1"
  proof -
    have "cache_fresh True now2 s2" using that 2 by (simp add: cache_fresh_def)
    then show ?thesis using that 2 by (simp add: get_conversations_def)
  qed
  show ?thesis using 1 2 3 4 by blast
qed

theorem get_conversations_fetch_and_cache_witness:
  "get_conversations 0 example_env 100 101 ''im'' True
     (new_client\<lparr>conversations_cache := Some example_directory, conversations_cache_time := 1,
                 api_log := [ConversationsList all_types None]\<rparr>)
   = (Some (Inr [hd example_directory]),
      new_client\<lparr>conversations_cache := Some example_directory, conversations_cache_time := 1,
                 api_log := [ConversationsList all_types None]\<rparr>)
   \<and> conversations_cache (new_client\<lparr>api_log := [ConversationsList ''im'' None]\<rparr>)
       = conversations_cache new_client"
proof -
  have h1: "\<not> cache_fresh True 0 new_client" by (simp add: cache_fresh_def new_client_def)
  have h3: "example_directory \<noteq> []" by (simp add: example_directory_def)
  have h4: "(100::rat) - 1 < cache_ttl" by (simp add: cache_ttl_def)
  have h5: "''im'' \<noteq> all_types" by (simp add: all_types_def)
  have k: "filter (\<lambda>c. c_type c \<in> allowed_kinds ''im'') example_directory = [hd example_directory]"
    by (simp add: allowed_kinds_def py_split_on_def type_map_def example_directory_def)
  show ?thesis
    using get_conversations_fetch_and_cache [OF h1 example_full_fetch,
        where ?now2.0 = 100 and ?fuel2.0 = 0 and ?e2.0 = example_env and ?later2.0 = 101
        and ?types2.0 = "''im''"
        and ?s2.0 = "new_client\<lparr>conversations_cache := Some example_directory,
             conversations_cache_time := 1, api_log := [ConversationsList all_types None]\<rparr>"]
      get_conversations_fetch_and_cache [OF h1 example_subset_fetch]
      h3 h4 h5
    by (simp add: k)
qed

text \<open>
  Two calls with different subsets of the types, two seconds apart, make two requests,
  each for the types of its caller.
\<close>

theorem get_conversations_subset_calls_fetch_twice:
  "api_log (snd (get_conversations (Suc 0) example_env 2 3 ''public_channel,private_channel'' True
      (snd (get_conversations (Suc 0) example_env 0 1 ''im'' True new_client))))
   = [ConversationsList ''im'' None, ConversationsList ''public_channel,private_channel'' None]"
  by (simp add: get_conversations_def cache_fresh_def new_client_def example_env_def all_types_def
      logged_def example_dm_def example_channel_def
      get_conversation_type_def truthy_def get_conversation_name_def get_or_def)

text \<open>
  C3: for a reference that starts with \<open>@\<close>, the candidates are the direct-message
  conversations, but their names are the placeholders \<open>@user:\<close> followed by the user id,
  which \<open>_resolve_channel\<close> never resolves. In the example workspace the handle \<open>@jen\<close>
  is not found although the only direct message is with Jen Rexford, and no profile is
  requested; \<open>@user\<close> matches the placeholder; \<open>find_dm_by_person\<close>, which resolves the
  names, finds her.
\<close>

theorem resolve_channel_handle_not_resolved:
  "fst (resolve_channel (Suc 0) example_env 0 1 ''@jen'' new_client)
     = Some (Inl (ValueError ''Could not find DM with user: jen''))
   \<and> api_log (snd (resolve_channel (Suc 0) example_env 0 1 ''@jen'' new_client))
     = [ConversationsList ''im'' None]
   \<and> fst (resolve_channel (Suc 0) example_env 0 1 ''@user'' new_client) = Some (Inr ''D1'')
   \<and> fst (find_dm_by_person (Suc 0) example_env 0 1 ''jen'' new_client)
     = Some (Inr (''D1'', ''@Jen Rexford''))"
  by code_simp

section \<open>Backend errors on the read paths\<close>

text \<open>
  C5: when the history request fails with the error code \<open>channel_not_found\<close>,
  \<open>get_messages\<close> returns the empty list; when it fails with any other error code, the
  error propagates to the caller; when the thread request fails with any error code,
  \<open>get_thread\<close> returns the empty list.
\<close>

theorem history_thread_backend_errors:
  "(conversations_history e (api_log s) (history_kwargs channel_id limit oldest latest)
      = Inl ''channel_not_found''
    \<longrightarrow> fst (get_messages e channel_id limit oldest latest s) = Inr [])
   \<and> (conversations_history e (api_log s) (history_kwargs channel_id limit oldest latest) = Inl code
      \<and> code \<noteq> ''channel_not_found''
    \<longrightarrow> fst (get_messages e channel_id limit oldest latest s) = Inl (SlackApiError code))
   \<and> (conversations_replies e (api_log s) channel_id thread_ts limit = Inl code'
    \<longrightarrow> fst (get_thread e channel_id thread_ts limit s) = Inr [])"
  by (simp add: get_messages_def get_thread_def Let_def)

theorem history_thread_backend_errors_witness:
  "fst (get_messages example_env ''C404'' 100 None None new_client) = Inr []
   \<and> fst (get_messages throttled_env ''C1'' 100 None None new_client)
       = Inl (SlackApiError ''ratelimited'')
   \<and> fst (get_thread example_env ''C1'' ''1700000100.000000'' 100 new_client) = Inr []"
proof -
  have a: "conversations_history example_env (api_log new_client)
             (history_kwargs ''C404'' 100 None None) = Inl ''channel_not_found''"
    by (simp add: example_env_def history_kwargs_def)
  have b: "conversations_history throttled_env (api_log new_client)
             (history_kwargs ''C1'' 100 None None) = Inl ''ratelimited''
           \<and> ''ratelimited'' \<noteq> ''channel_not_found''"
    by (simp add: throttled_env_def)
  have c: "conversations_replies example_env (api_log new_client) ''C1'' ''1700000100.000000'' 100
             = Inl ''thread_not_found''"
    by (simp add: example_env_def)
  show ?thesis
    using history_thread_backend_errors [where e = example_env and s = new_client
        and channel_id = "''C404''" and limit = 100 and oldest = None and latest = None]
      history_thread_backend_errors [where e = throttled_env and s = new_client
        and channel_id = "''C1''" and limit = 100 and oldest = None and latest = None
        and code = "''ratelimited''"]
      history_thread_backend_errors [where e = example_env and s = new_client
        and channel_id = "''C1''" and limit = 100 and thread_ts = "''1700000100.000000''"
        and code' = "''thread_not_found''"]
      a b c
    by simp
qed

section \<open>Quoted replies\<close>

lemma replace_from_char:
  "replace_from [a] [b] s 0 = map (\<lambda>c. if c = a then b else c) s"
  by (induction s) auto

lemma py_replace_char: "py_replace [a] [b] s = map (\<lambda>c. if c = a then b else c) s"
  by (simp add: py_replace_def replace_from_char)







lemma reply_excerpt_short:
  "length t \<le> 50 \<Longrightarrow> reply_excerpt t = py_strip (map (\<lambda>c. if c = newline then CHR '' '' else c) t)"
  by (simp add: reply_excerpt_def py_replace_char)











section \<open>The unread tool\<close>

lemma bind_unread_keywords:
  "bind_keywords ''SlackClient.get_unread_messages'' get_unread_messages_params
     [(''hours'', h), (''max_dms'', d), (''max_channels'', c)] = Inl unread_type_error"
  by (simp add: bind_keywords_def get_unread_messages_params_def unread_type_error_def)

text \<open>
  C2, as amended: every invocation of the \<open>slack_unread\<close> tool ends in an exception, which
  \<open>call_tool\<close> turns into a text that starts with \<open>Error:\<close>, so the operation never
  returns unread messages; when the workspace of the invocation has a client, the
  exception is the \<open>TypeError\<close> of the call of \<open>get_unread_messages\<close> with the keywords
  \<open>max_dms\<close> and \<open>max_channels\<close>, which its signature does not accept.
\<close>

theorem slack_unread_type_error:
  "(\<exists>x. fst (handle_slack_unread fuel e t0 now later render loaded clients args) = Some (Inl x)
        \<and> call_tool_text (Inl x) = ''Error: '' @ exn_message x)
   \<and> (fst (get_client loaded clients (ta_workspace args)) = Inr kc
      \<longrightarrow> fst (handle_slack_unread fuel e t0 now later render loaded clients args)
            = Some (Inl unread_type_error))"
  unfolding handle_slack_unread_def Let_def bind_unread_keywords
  by (auto simp: call_tool_text_def split: prod.splits sum.splits)

theorem slack_unread_type_error_witness:
  "fst (get_client (Inr example_config) Map.empty None) = Inr (''default'', new_client)
   \<and> fst (handle_slack_unread 5 example_env 1700000400 1700000400 1700000401 (\<lambda>u. ''unread'')
        (Inr example_config) Map.empty
        \<lparr>ta_workspace = None, ta_hours = None, ta_max_dms = None, ta_max_channels = None\<rparr>)
      = Some (Inl unread_type_error)"
proof -
  have g: "fst (get_client (Inr example_config) Map.empty None) = Inr (''default'', new_client)"
    by (simp add: get_client_def get_workspace_def example_config_def)
  show ?thesis
    using slack_unread_type_error [where loaded = "Inr example_config" and clients = Map.empty
        and args = "\<lparr>ta_workspace = None, ta_hours = None, ta_max_dms = None, ta_max_channels = None\<rparr>"
        and kc = "(''default'', new_client)" and fuel = 5 and e = example_env
        and ?t0.0 = 1700000400 and now = 1700000400 and later = 1700000401 and render = "\<lambda>u. ''unread''"]
      g
    by simp
qed

text \<open>
  An invocation that names an unknown workspace fails in \<open>get_client\<close>, before the call of
  \<open>get_unread_messages\<close>: the error is a \<open>ValueError\<close>, not a \<open>TypeError\<close>.
\<close>

theorem slack_unread_unknown_workspace:
  "fst (handle_slack_unread 5 example_env 1700000400 1700000400 1700000401 (\<lambda>u. ''unread'')
        (Inr example_config) Map.empty
        \<lparr>ta_workspace = Some ''nope'', ta_hours = None, ta_max_dms = None, ta_max_channels = None\<rparr>)
     = Some (Inl (ValueError ''Unknown workspace: nope''))
   \<and> call_tool_text (Inl (ValueError ''Unknown workspace: nope'')) = ''Error: Unknown workspace: nope''"
  by (simp add: handle_slack_unread_def get_client_def get_workspace_def example_config_def
      call_tool_text_def)

end
